theory Spec2Isabelle
  imports Complex_Main "HOL-Library.AList"
begin

section \<open>JavaScript values\<close>

text \<open>
  The helpers in \<^verbatim>\<open>helpers/sql.js\<close> and the Job model work on plain JavaScript data:
  query-string objects, JSON bodies and rows handed back by the database driver.

  \<^item> A number is \<open>NaN\<close>, an infinity, or \<open>Fin r\<close> with \<open>r\<close> a rational. \<open>Fin r\<close> stands for
    the double nearest to \<open>r\<close>, which \<open>to_double\<close> computes (round to nearest, ties to
    even, infinity beyond the range); a number is compared, tested for truth and
    printed as that double. The sign of zero is not modelled.
  \<^item> A string is a list of characters; a character stands for a code unit below 256.
  \<^item> An object is a plain object (its prototype is \<^verbatim>\<open>Object.prototype\<close>): the list of
    its own enumerable properties in the order \<^verbatim>\<open>Object.keys\<close> reports them. Its
    properties hold values of the model, none of which is a function. The members it
    inherits from \<^verbatim>\<open>Object.prototype\<close> are listed where the code reads a property
    through the prototype chain.
\<close>

datatype jsnum = NaN | PosInf | NegInf | Fin rat

datatype jsval =
    JUndefined
  | JNull
  | JBool bool
  | JNum jsnum
  | JStr string
  | JArr "jsval list"
  | JObj "(string \<times> jsval) list"

type_synonym js_object = "(string \<times> jsval) list"

text \<open>What the code can throw. \<open>StoreError\<close> is an error raised by the database driver.\<close>

datatype error =
    BadRequestError string
  | NotFoundError string
  | TypeError
  | StoreError string

subsection \<open>Decimal digits\<close>

definition is_digit :: "char \<Rightarrow> bool" where
  "is_digit c \<longleftrightarrow> c \<in> set ''0123456789''"

definition digit_val :: "char \<Rightarrow> nat" where
  "digit_val c = of_char c - 48"

definition digit_char :: "nat \<Rightarrow> char" where
  "digit_char n = ''0123456789'' ! n"

definition nat_of_digits :: "string \<Rightarrow> nat" where
  "nat_of_digits ds = foldl (\<lambda>a c. 10 * a + digit_val c) 0 ds"

text \<open>The same value as a number, computed in the rationals.\<close>

definition digits_value :: "string \<Rightarrow> rat" where
  "digits_value ds = foldl (\<lambda>a c. 10 * a + of_nat (digit_val c)) 0 ds"

text \<open>The decimal numeral of a natural number, as a template literal prints an index.\<close>

fun show_nat :: "nat \<Rightarrow> string" where
  "show_nat n = (if n < 10 then [digit_char n] else show_nat (n div 10) @ [digit_char (n mod 10)])"

declare show_nat.simps [simp del]

subsection \<open>\<^verbatim>\<open>String.prototype.trim\<close> and \<^verbatim>\<open>Array.prototype.join\<close>\<close>

definition is_space :: "char \<Rightarrow> bool" where
  "is_space c \<longleftrightarrow> (of_char c :: nat) \<in> {9, 10, 11, 12, 13, 32, 160}"

definition trim :: "string \<Rightarrow> string" where
  "trim s = rev (dropWhile is_space (rev (dropWhile is_space s)))"

fun join :: "string \<Rightarrow> string list \<Rightarrow> string" where
  "join sep [] = []"
| "join sep [x] = x"
| "join sep (x # y # ys) = x @ sep @ join sep (y # ys)"

subsection \<open>Conversion to a number (unary \<^verbatim>\<open>+\<close>)\<close>

text \<open>
  The exponent part of a decimal literal after its \<^verbatim>\<open>e\<close>: an optional sign and at least
  one digit, up to the end of the string. The result is the sign and the magnitude.
\<close>

definition parse_exponent :: "string \<Rightarrow> (bool \<times> nat) option" where
  "parse_exponent s =
     (let (neg, ds) =
        (case s of
           [] \<Rightarrow> (False, [])
         | c # t \<Rightarrow> if c = CHR ''-'' then (True, t) else if c = CHR ''+'' then (False, t) else (False, s))
      in if ds \<noteq> [] \<and> list_all is_digit ds then Some (neg, nat_of_digits ds) else None)"

text \<open>
  An unsigned decimal literal: \<^verbatim>\<open>Infinity\<close>, or digits with an optional fraction and an
  optional exponent, with at least one digit before or after the point.
\<close>

definition parse_unsigned_decimal :: "string \<Rightarrow> jsnum" where
  "parse_unsigned_decimal s =
     (if s = ''Infinity'' then PosInf
      else
        let ip = takeWhile is_digit s;
            r1 = dropWhile is_digit s;
            has_dot = (r1 \<noteq> [] \<and> hd r1 = CHR ''.'');
            fp = (if has_dot then takeWhile is_digit (tl r1) else []);
            r2 = (if has_dot then dropWhile is_digit (tl r1) else r1);
            mant = digits_value ip + digits_value fp / 10 ^ length fp
        in if ip = [] \<and> fp = [] then NaN
           else if r2 = [] then Fin mant
           else if hd r2 = CHR ''e'' \<or> hd r2 = CHR ''E'' then
             (case parse_exponent (tl r2) of
                None \<Rightarrow> NaN
              | Some (neg, n) \<Rightarrow> Fin (if neg then mant / 10 ^ n else mant * 10 ^ n))
           else NaN)"

fun negate :: "jsnum \<Rightarrow> jsnum" where
  "negate NaN = NaN"
| "negate PosInf = NegInf"
| "negate NegInf = PosInf"
| "negate (Fin r) = Fin (- r)"

definition parse_decimal :: "string \<Rightarrow> jsnum" where
  "parse_decimal s =
     (case s of
        [] \<Rightarrow> NaN
      | c # t \<Rightarrow>
          if c = CHR ''-'' then negate (parse_unsigned_decimal t)
          else if c = CHR ''+'' then parse_unsigned_decimal t
          else parse_unsigned_decimal s)"

text \<open>Hexadecimal, octal and binary integer literals (\<^verbatim>\<open>0x\<close>, \<^verbatim>\<open>0o\<close>, \<^verbatim>\<open>0b\<close>) take no sign.\<close>

definition radix_val :: "char \<Rightarrow> nat" where
  "radix_val c =
     (let n = (of_char c :: nat) in
      if 48 \<le> n \<and> n \<le> 57 then n - 48
      else if 97 \<le> n \<and> n \<le> 102 then n - 87
      else if 65 \<le> n \<and> n \<le> 70 then n - 55
      else 16)"

definition parse_radix_digits :: "nat \<Rightarrow> string \<Rightarrow> jsnum" where
  "parse_radix_digits b ds =
     (if ds \<noteq> [] \<and> list_all (\<lambda>c. radix_val c < b) ds
      then Fin (foldl (\<lambda>a c. of_nat b * a + of_nat (radix_val c)) 0 ds)
      else NaN)"

definition parse_non_decimal :: "string \<Rightarrow> jsnum option" where
  "parse_non_decimal s =
     (case s of
        z # x # ds \<Rightarrow>
          if z \<noteq> CHR ''0'' then None
          else if x = CHR ''x'' \<or> x = CHR ''X'' then Some (parse_radix_digits 16 ds)
          else if x = CHR ''o'' \<or> x = CHR ''O'' then Some (parse_radix_digits 8 ds)
          else if x = CHR ''b'' \<or> x = CHR ''B'' then Some (parse_radix_digits 2 ds)
          else None
      | _ \<Rightarrow> None)"

definition string_to_number :: "string \<Rightarrow> jsnum" where
  "string_to_number s =
     (let t = trim s in
      if t = [] then Fin 0
      else case parse_non_decimal t of
             Some n \<Rightarrow> n
           | None \<Rightarrow> parse_decimal t)"

subsection \<open>Doubles and the relational operator \<^verbatim>\<open><=\<close>\<close>

text \<open>The number of binary digits of a positive integer.\<close>

function bit_length :: "int \<Rightarrow> int" where
  "bit_length n = (if n \<le> 0 then 0 else 1 + bit_length (n div 2))"
  by pat_completeness auto
termination
  by (relation "measure nat") auto

declare bit_length.simps [simp del]

text \<open>The integer nearest to \<open>num / den\<close> for a positive \<open>den\<close>, the even one on a tie.\<close>

definition round_half_even :: "int \<Rightarrow> int \<Rightarrow> int" where
  "round_half_even num den =
     (let f = num div den;
          r = num mod den
      in if 2 * r < den then f
         else if den < 2 * r then f + 1
         else if f mod 2 = 0 then f else f + 1)"

text \<open>
  The double nearest to a positive rational \<open>r\<close>. With \<open>2^e \<le> r < 2^(e+1)\<close> the doubles
  around \<open>r\<close> are the multiples of \<open>2^(e-52)\<close>, and those of \<open>2^(-1074)\<close> when \<open>e\<close> is
  below \<open>-1022\<close>; \<open>s\<close> is the exponent of that step, negated, and \<open>m\<close> the multiple
  nearest to \<open>r\<close>. A result of \<open>2^1024\<close> or more is infinity.
\<close>

definition double_of_positive :: "rat \<Rightarrow> jsnum" where
  "double_of_positive r =
     (let p = fst (quotient_of r);
          q = snd (quotient_of r);
          e0 = bit_length p - bit_length q;
          e = (if (if 0 \<le> e0 then q * 2 ^ nat e0 \<le> p else q \<le> p * 2 ^ nat (- e0)) then e0
               else e0 - 1);
          s = 52 - max e (- 1022);
          m = (if 0 \<le> s then round_half_even (p * 2 ^ nat s) q
               else round_half_even p (q * 2 ^ nat (- s)))
      in if 1024 \<le> e then PosInf
         else if e = 1023 \<and> m = 9007199254740992 then PosInf
         else if 0 \<le> s then Fin (of_int m / of_int (2 ^ nat s))
         else Fin (of_int (m * 2 ^ nat (- s))))"

fun to_double :: "jsnum \<Rightarrow> jsnum" where
  "to_double NaN = NaN"
| "to_double PosInf = PosInf"
| "to_double NegInf = NegInf"
| "to_double (Fin r) =
     (if r = 0 then Fin 0
      else if r < 0 then negate (double_of_positive (- r))
      else double_of_positive r)"

fun le_double :: "jsnum \<Rightarrow> jsnum \<Rightarrow> bool" where
  "le_double NaN _ = False"
| "le_double _ NaN = False"
| "le_double NegInf _ = True"
| "le_double _ PosInf = True"
| "le_double PosInf _ = False"
| "le_double _ NegInf = False"
| "le_double (Fin a) (Fin b) = (a \<le> b)"

text \<open>
  The relational operator \<^verbatim>\<open><=\<close> on two numbers: it compares the doubles they stand
  for; any comparison with \<open>NaN\<close> is false.
\<close>

definition num_le :: "jsnum \<Rightarrow> jsnum \<Rightarrow> bool" where
  "num_le a b = le_double (to_double a) (to_double b)"

subsection \<open>Truthiness\<close>

text \<open>A number is falsy when it is \<open>NaN\<close> or zero.\<close>

fun truthy :: "jsval \<Rightarrow> bool" where
  "truthy JUndefined = False"
| "truthy JNull = False"
| "truthy (JBool b) = b"
| "truthy (JNum n) = (to_double n \<noteq> NaN \<and> to_double n \<noteq> Fin 0)"
| "truthy (JStr s) = (s \<noteq> [])"
| "truthy (JArr xs) = True"
| "truthy (JObj ps) = True"

subsection \<open>Conversion to a string (template literals)\<close>

function show_digits :: "int \<Rightarrow> string" where
  "show_digits m =
     (if m < 10 then [digit_char (nat m)]
      else show_digits (m div 10) @ [digit_char (nat (m mod 10))])"
  by pat_completeness auto
termination
  by (relation "measure nat") auto

declare show_digits.simps [simp del]

text \<open>
  The least number of decimal places \<open>e\<close> for which a fraction with denominator \<open>q\<close>
  times \<open>10^e\<close> is an integer; \<open>p\<close> is \<open>10^e\<close>. The search ends at \<open>q\<close> places, which a
  terminating decimal never needs.
\<close>

function decimal_places :: "int \<Rightarrow> int \<Rightarrow> nat \<Rightarrow> nat" where
  "decimal_places q p e =
     (if p mod q = 0 \<or> q \<le> int e then e else decimal_places q (10 * p) (Suc e))"
  by pat_completeness auto
termination
  by (relation "measure (\<lambda>(q, p, e). nat q - e)") auto

declare decimal_places.simps [simp del]

text \<open>
  The layout of \<^verbatim>\<open>Number::toString\<close> for a positive terminating decimal \<open>r\<close>. With \<open>sd\<close>
  the digits of \<open>r\<close> without trailing zeros, \<open>k\<close> their count and \<open>n\<close> the position of
  the decimal point (the value is \<open>0.sd \<times> 10^n\<close>), the number prints as an integer,
  with a point inside the digits, with leading zeros after \<^verbatim>\<open>0.\<close>, or in exponent
  notation when \<open>n\<close> is above 21 or below \<open>-5\<close>.
\<close>

definition show_positive :: "rat \<Rightarrow> string" where
  "show_positive r =
     (let e = decimal_places (snd (quotient_of r)) 1 0;
          ds = show_digits \<lfloor>r * 10 ^ e\<rfloor>;
          sd = take (length ds - length (takeWhile (\<lambda>c. c = CHR ''0'') (rev ds))) ds;
          k = int (length sd);
          n = int (length ds) - int e
      in if k \<le> n \<and> n \<le> 21 then sd @ replicate (nat (n - k)) CHR ''0''
         else if 0 < n \<and> n \<le> 21 then take (nat n) sd @ ''.'' @ drop (nat n) sd
         else if - 6 < n \<and> n \<le> 0 then ''0.'' @ replicate (nat (- n)) CHR ''0'' @ sd
         else (if k = 1 then sd else [hd sd] @ ''.'' @ tl sd)
              @ ''e'' @ (if n - 1 < 0 then ''-'' else ''+'') @ show_digits \<bar>n - 1\<bar>)"

text \<open>
  The digits \<^verbatim>\<open>Number::toString\<close> prints for a positive double \<open>v\<close> are the fewest that
  convert back to \<open>v\<close>; among the decimals with that many digits it takes the one
  nearest to \<open>v\<close>, and on a tie the one whose last digit is even. \<open>decimal_exponent v\<close>
  is the \<open>n\<close> with \<open>10^(n-1) \<le> v < 10^n\<close>. \<open>candidate v n k\<close> looks at the two decimals
  of \<open>k\<close> digits around \<open>v\<close>; it is \<open>None\<close> when neither converts back to \<open>v\<close>. Seventeen
  digits are enough for every double.
\<close>

definition pow10 :: "int \<Rightarrow> rat" where
  "pow10 e = (if 0 \<le> e then 10 ^ nat e else 1 / 10 ^ nat (- e))"

definition decimal_exponent :: "rat \<Rightarrow> int" where
  "decimal_exponent v =
     (let g = int (length (show_digits (fst (quotient_of v))))
              - int (length (show_digits (snd (quotient_of v))))
      in if pow10 g \<le> v then g + 1 else g)"

definition candidate :: "rat \<Rightarrow> int \<Rightarrow> nat \<Rightarrow> rat option" where
  "candidate v n k =
     (let scale = pow10 (int k - n);
          f = \<lfloor>v * scale\<rfloor>;
          lo = of_int f / scale;
          hi = of_int (f + 1) / scale;
          ok_lo = (double_of_positive lo = Fin v);
          ok_hi = (double_of_positive hi = Fin v)
      in if ok_lo \<and> ok_hi then
           (if v - lo < hi - v then Some lo
            else if hi - v < v - lo then Some hi
            else if f mod 2 = 0 then Some lo else Some hi)
         else if ok_lo then Some lo
         else if ok_hi then Some hi
         else None)"

fun shortest_decimal_from :: "rat \<Rightarrow> int \<Rightarrow> nat list \<Rightarrow> rat" where
  "shortest_decimal_from v n [] = v"
| "shortest_decimal_from v n (k # ks) =
     (case candidate v n k of
        Some c \<Rightarrow> c
      | None \<Rightarrow> shortest_decimal_from v n ks)"

definition shortest_decimal :: "rat \<Rightarrow> rat" where
  "shortest_decimal v = shortest_decimal_from v (decimal_exponent v) [1 ..< 18]"

definition number_to_string :: "jsnum \<Rightarrow> string" where
  "number_to_string n =
     (case to_double n of
        NaN \<Rightarrow> ''NaN''
      | PosInf \<Rightarrow> ''Infinity''
      | NegInf \<Rightarrow> ''-Infinity''
      | Fin v \<Rightarrow>
          if v = 0 then ''0''
          else if v < 0 then ''-'' @ show_positive (shortest_decimal (- v))
          else show_positive (shortest_decimal v))"

fun js_string :: "jsval \<Rightarrow> string" where
  "js_string JUndefined = ''undefined''"
| "js_string JNull = ''null''"
| "js_string (JBool b) = (if b then ''true'' else ''false'')"
| "js_string (JNum n) = number_to_string n"
| "js_string (JStr s) = s"
| "js_string (JArr xs) =
     join '','' (map (\<lambda>x. if x = JUndefined \<or> x = JNull then [] else js_string x) xs)"
| "js_string (JObj ps) = ''[object Object]''"

text \<open>
  Converting an object to a string or to a number calls its \<^verbatim>\<open>toString\<close>. An object
  that has a property \<^verbatim>\<open>toString\<close> of its own hides the inherited method behind a value
  that cannot be called, and the conversion throws a \<^verbatim>\<open>TypeError\<close>; so does the
  conversion of an array with such an element. \<open>js_string\<close> and \<open>to_number\<close> give the
  result of a conversion that does not throw; the code below asks \<open>conversion_throws\<close>
  first.
\<close>

fun conversion_throws :: "jsval \<Rightarrow> bool" where
  "conversion_throws (JObj ps) = (map_of ps ''toString'' \<noteq> None)"
| "conversion_throws (JArr xs) = list_ex conversion_throws xs"
| "conversion_throws _ = False"

fun to_number :: "jsval \<Rightarrow> jsnum" where
  "to_number JUndefined = NaN"
| "to_number JNull = Fin 0"
| "to_number (JBool b) = (if b then Fin 1 else Fin 0)"
| "to_number (JNum n) = n"
| "to_number (JStr s) = string_to_number s"
| "to_number (JArr xs) =
     (if conversion_throws (JArr xs) then NaN else string_to_number (js_string (JArr xs)))"
| "to_number (JObj ps) = NaN"

subsection \<open>Property access\<close>

definition has_own :: "js_object \<Rightarrow> string \<Rightarrow> bool" where
  "has_own obj k \<longleftrightarrow> map_of obj k \<noteq> None"

definition get_prop :: "js_object \<Rightarrow> string \<Rightarrow> jsval" where
  "get_prop obj k = (case map_of obj k of None \<Rightarrow> JUndefined | Some v \<Rightarrow> v)"

definition object_keys :: "js_object \<Rightarrow> string list" where
  "object_keys obj = map fst obj"

definition object_values :: "js_object \<Rightarrow> jsval list" where
  "object_values obj = map snd obj"

text \<open>
  The own enumerable properties \<^verbatim>\<open>Object.keys\<close> walks: those of an object, the
  indices of a string or an array, none for the other values.
\<close>

definition entries :: "jsval \<Rightarrow> js_object" where
  "entries v =
     (case v of
        JObj ps \<Rightarrow> ps
      | JStr s \<Rightarrow> map (\<lambda>(i, c). (show_nat i, JStr [c])) (enumerate 0 s)
      | JArr xs \<Rightarrow> map (\<lambda>(i, x). (show_nat i, x)) (enumerate 0 xs)
      | _ \<Rightarrow> [])"

text \<open>
  The own properties a property read \<^verbatim>\<open>v[k]\<close> or \<^verbatim>\<open>v.k\<close> sees: reading a property of
  \<^verbatim>\<open>undefined\<close> or \<^verbatim>\<open>null\<close> throws (\<open>None\<close>); a string or an array has its indices and
  its \<^verbatim>\<open>length\<close>.
\<close>

definition props_of :: "jsval \<Rightarrow> js_object option" where
  "props_of v =
     (case v of
        JUndefined \<Rightarrow> None
      | JNull \<Rightarrow> None
      | JStr s \<Rightarrow> Some (entries v @ [(''length'', JNum (Fin (of_nat (length s))))])
      | JArr xs \<Rightarrow> Some (entries v @ [(''length'', JNum (Fin (of_nat (length xs))))])
      | _ \<Rightarrow> Some (entries v))"

text \<open>Reading index \<open>i\<close> of an array: \<^verbatim>\<open>undefined\<close> past its end.\<close>

definition index :: "jsval list \<Rightarrow> nat \<Rightarrow> jsval" where
  "index xs i = (if i < length xs then xs ! i else JUndefined)"

section \<open>\<^verbatim>\<open>helpers/sql.js\<close>\<close>

subsection \<open>\<^verbatim>\<open>sqlForPartialUpdate\<close>\<close>

record set_clause =
  setCols :: string
  setValues :: "jsval list"

text \<open>
  The read \<^verbatim>\<open>jsToSql[colName]\<close> goes through the prototype chain: when \<^verbatim>\<open>jsToSql\<close> has
  no property \<^verbatim>\<open>colName\<close> of its own, it finds the member of \<^verbatim>\<open>Object.prototype\<close> of
  that name, if there is one. Each of these members is truthy; \<open>inherited_text\<close> is what
  a template literal prints for it: \<^verbatim>\<open>__proto__\<close> is the object \<^verbatim>\<open>Object.prototype\<close>,
  the others are native functions. A column mapping that is a string, a number, a
  boolean or an array stands here with its own properties and the same inherited
  members; the members of its own prototype are not listed.
\<close>

definition inherited_text :: "string \<Rightarrow> string option" where
  "inherited_text k =
     (if k = ''__proto__'' then Some ''[object Object]''
      else if k = ''constructor'' then Some ''function Object() { [native code] }''
      else if k \<in> set [''__defineGetter__'', ''__defineSetter__'', ''hasOwnProperty'',
                         ''__lookupGetter__'', ''__lookupSetter__'', ''isPrototypeOf'',
                         ''propertyIsEnumerable'', ''toString'', ''valueOf'', ''toLocaleString'']
      then Some (''function '' @ k @ ''() { [native code] }'')
      else None)"

text \<open>
  \<open>set_col\<close> is the callback of \<^verbatim>\<open>keys.map\<close>:
  \<^verbatim>\<open>`"${jsToSql[colName] || colName}"=$${idx + 1}`\<close>. The template literal converts
  the value it is given to a string, which can throw.
\<close>

definition set_col :: "js_object \<Rightarrow> string \<Rightarrow> nat \<Rightarrow> error + string" where
  "set_col jsToSql colName idx =
     (case map_of jsToSql colName of
        Some v \<Rightarrow>
          if truthy v then
            (if conversion_throws v then Inl TypeError
             else Inr (''\"'' @ js_string v @ ''\"=$'' @ show_nat (idx + 1)))
          else Inr (''\"'' @ colName @ ''\"=$'' @ show_nat (idx + 1))
      | None \<Rightarrow>
          (case inherited_text colName of
             Some txt \<Rightarrow> Inr (''\"'' @ txt @ ''\"=$'' @ show_nat (idx + 1))
           | None \<Rightarrow> Inr (''\"'' @ colName @ ''\"=$'' @ show_nat (idx + 1))))"

text \<open>The results of \<^verbatim>\<open>Array.prototype.map\<close> with a callback that can throw: the first
  error ends the call.\<close>

fun collect :: "(error + 'a) list \<Rightarrow> error + 'a list" where
  "collect [] = Inr []"
| "collect (x # xs) =
     (case x of
        Inl e \<Rightarrow> Inl e
      | Inr y \<Rightarrow> (case collect xs of Inl e \<Rightarrow> Inl e | Inr ys \<Rightarrow> Inr (y # ys)))"

definition sqlForPartialUpdate :: "js_object \<Rightarrow> jsval \<Rightarrow> error + set_clause" where
  "sqlForPartialUpdate dataToUpdate jsToSql =
     (let keys = object_keys dataToUpdate in
      if length keys = 0 then Inl (BadRequestError ''No data'')
      else case props_of jsToSql of
             None \<Rightarrow> Inl TypeError
           | Some m \<Rightarrow>
               (case collect (map (\<lambda>(idx, colName). set_col m colName idx) (enumerate 0 keys)) of
                  Inl e \<Rightarrow> Inl e
                | Inr cols \<Rightarrow>
                    Inr \<lparr> setCols = join '', '' cols,
                          setValues = object_values dataToUpdate \<rparr>))"

subsection \<open>\<^verbatim>\<open>sqlForFilter\<close>\<close>

text \<open>
  The table selector. Every caller passes one of the two literals \<^verbatim>\<open>"companies"\<close> and
  \<^verbatim>\<open>"jobs"\<close>, the two keys of the \<^verbatim>\<open>fields\<close> object.
\<close>

datatype table = Companies | Jobs

definition table_name :: "table \<Rightarrow> string" where
  "table_name t = (case t of Companies \<Rightarrow> ''companies'' | Jobs \<Rightarrow> ''jobs'')"

record field_spec =
  dbName :: string
  type :: "string option"
  comparison :: "string option"

record where_clause =
  whereClause :: string
  whereValues :: "jsval list"

definition fields :: "table \<Rightarrow> (string \<times> field_spec) list" where
  "fields t =
     (case t of
        Companies \<Rightarrow>
          [(''nameLike'', \<lparr> dbName = ''name'', type = Some ''string'', comparison = None \<rparr>),
           (''minEmployees'', \<lparr> dbName = ''num_employees'', type = Some ''integer'', comparison = Some ''>='' \<rparr>),
           (''maxEmployees'', \<lparr> dbName = ''num_employees'', type = Some ''integer'', comparison = Some ''<='' \<rparr>)]
      | Jobs \<Rightarrow>
          [(''title'', \<lparr> dbName = ''title'', type = Some ''string'', comparison = None \<rparr>),
           (''minSalary'', \<lparr> dbName = ''salary'', type = Some ''integer'', comparison = Some ''>='' \<rparr>),
           (''hasEquity'', \<lparr> dbName = ''equity'', type = None, comparison = None \<rparr>)])"

definition not_possible :: "table \<Rightarrow> string \<Rightarrow> error" where
  "not_possible t colName =
     BadRequestError (''Filtering '' @ [CHR 0x27] @ table_name t @ [CHR 0x27] @ '' by ''
                      @ [CHR 0x27] @ colName @ [CHR 0x27] @ '' is not possible.'')"

definition min_max_message :: "js_object \<Rightarrow> string" where
  "min_max_message d =
     ''Filter is incorrect: 'minEmployees', '' @ js_string (get_prop d ''minEmployees'')
     @ '', is NOT less than 'maxEmployees', '' @ js_string (get_prop d ''maxEmployees'') @ ''.''"

text \<open>
  The callback of \<^verbatim>\<open>keys.map\<close> for one key. It reads and extends the array
  \<^verbatim>\<open>valuesOut\<close>, which is passed in and returned with the clause fragment.
  \<^verbatim>\<open>.trim()\<close> exists on strings only; on any other value the call throws. The unary
  \<^verbatim>\<open>+\<close> throws where the conversion of its operand does.
\<close>

definition filter_col :: "table \<Rightarrow> js_object \<Rightarrow> jsval list \<Rightarrow> string \<Rightarrow> error + (string \<times> jsval list)" where
  "filter_col t d valuesOut colName =
     (case map_of (fields t) colName of
        None \<Rightarrow> Inl (not_possible t colName)
      | Some f \<Rightarrow>
          if colName = ''hasEquity'' then
            (if truthy (get_prop d colName) then Inr (dbName f @ '' > 0'', valuesOut)
             else Inr (dbName f @ '' >= 0'', valuesOut))
          else if type f = Some ''string'' then
            (case get_prop d colName of
               JStr s \<Rightarrow>
                 Inr (dbName f @ '' ILIKE $'' @ show_nat (length valuesOut + 1),
                      valuesOut @ [JStr (''%'' @ trim s @ ''%'')])
             | _ \<Rightarrow> Inl TypeError)
          else if type f = Some ''integer'' then
            (if conversion_throws (get_prop d colName) then Inl TypeError
             else
               Inr (dbName f @ '' '' @ js_string (case comparison f of None \<Rightarrow> JUndefined | Some c \<Rightarrow> JStr c)
                      @ '' $'' @ show_nat (length valuesOut + 1),
                    valuesOut @ [JNum (to_number (get_prop d colName))]))
          else Inl (not_possible t colName))"

fun filter_cols :: "table \<Rightarrow> js_object \<Rightarrow> string list \<Rightarrow> jsval list \<Rightarrow> error + (string list \<times> jsval list)" where
  "filter_cols t d [] valuesOut = Inr ([], valuesOut)"
| "filter_cols t d (colName # rest) valuesOut =
     (case filter_col t d valuesOut colName of
        Inl e \<Rightarrow> Inl e
      | Inr (c, valuesOut') \<Rightarrow>
          (case filter_cols t d rest valuesOut' of
             Inl e \<Rightarrow> Inl e
           | Inr (cs, valuesOut'') \<Rightarrow> Inr (c # cs, valuesOut'')))"

text \<open>
  The check of \<^verbatim>\<open>minEmployees\<close> against \<^verbatim>\<open>maxEmployees\<close> that runs before anything
  else: the error it throws, if any. It applies the unary \<^verbatim>\<open>+\<close> to both values, which
  throws where a conversion does, and compares the two numbers.
\<close>

definition min_max_check :: "js_object \<Rightarrow> error option" where
  "min_max_check d =
     (if has_own d ''minEmployees'' \<and> has_own d ''maxEmployees'' then
        (if conversion_throws (get_prop d ''maxEmployees'')
            \<or> conversion_throws (get_prop d ''minEmployees'') then Some TypeError
         else if num_le (to_number (get_prop d ''maxEmployees'')) (to_number (get_prop d ''minEmployees''))
         then Some (BadRequestError (min_max_message d))
         else None)
      else None)"

definition sqlForFilter :: "jsval \<Rightarrow> table \<Rightarrow> error + where_clause" where
  "sqlForFilter dataForFilter t =
     (let d = entries dataForFilter;
          keys = object_keys d
      in if truthy dataForFilter \<and> length keys > 0 then
           (case min_max_check d of
              Some e \<Rightarrow> Inl e
            | None \<Rightarrow>
                (case filter_cols t d keys [] of
                   Inl e \<Rightarrow> Inl e
                 | Inr (cols, valuesOut) \<Rightarrow>
                     Inr \<lparr> whereClause = ''WHERE '' @ join '' AND '' cols, whereValues = valuesOut \<rparr>))
         else Inr \<lparr> whereClause = [], whereValues = [] \<rparr>)"

section \<open>\<^verbatim>\<open>models/jobModel.js\<close>\<close>

text \<open>
  The database is outside the repository. \<^verbatim>\<open>db.query(sql, params)\<close> is a function
  from the statement and its parameters to the rows of the result, or to the error the
  driver throws. A statement is named by its SQL template and the fragments the code
  splices into it:
  \<^item> \<open>InsertJob\<close>: \<^verbatim>\<open>INSERT INTO jobs ... RETURNING id, company_handle, title, salary, equity\<close>;
  \<^item> \<open>SelectCompanyJobs joinType whereClause\<close>: the grouped \<^verbatim>\<open>SELECT\<close> of \<^verbatim>\<open>findAll\<close>;
  \<^item> \<open>SelectJob\<close>: the \<^verbatim>\<open>SELECT ... WHERE id = $1\<close> of \<^verbatim>\<open>get\<close>;
  \<^item> \<open>UpdateJob setCols idVarIdx\<close>: \<^verbatim>\<open>UPDATE jobs SET ${setCols} WHERE id = ${idVarIdx} RETURNING ...\<close>.
\<close>

datatype statement =
    InsertJob
  | SelectCompanyJobs string string
  | SelectJob
  | UpdateJob string string

type_synonym store = "statement \<Rightarrow> jsval list \<Rightarrow> error + jsval list"

text \<open>
  The expression \<^verbatim>\<open>x ? +x : x\<close> that \<^verbatim>\<open>create\<close>, \<^verbatim>\<open>get\<close> and \<^verbatim>\<open>update\<close> apply to
  the salary and the equity of a row. The columns of a row hold what the driver makes
  of an SQL value: a number, a string or \<^verbatim>\<open>null\<close>, on which no conversion throws.
\<close>

definition numeric_if_truthy :: "jsval \<Rightarrow> jsval" where
  "numeric_if_truthy x = (if truthy x then JNum (to_number x) else x)"

subsection \<open>\<^verbatim>\<open>Job.create\<close>\<close>


subsection \<open>\<^verbatim>\<open>Job.findAll\<close>\<close>

text \<open>
  \<^verbatim>\<open>delete job.company_handle\<close> for one element of a company's \<^verbatim>\<open>jobs\<close> array.
\<close>

definition delete_company_handle :: "jsval \<Rightarrow> error + jsval" where
  "delete_company_handle job =
     (case job of
        JUndefined \<Rightarrow> Inl TypeError
      | JNull \<Rightarrow> Inl TypeError
      | JObj ps \<Rightarrow> Inr (JObj (AList.delete ''company_handle'' ps))
      | _ \<Rightarrow> Inr job)"

fun for_each :: "(jsval \<Rightarrow> error + jsval) \<Rightarrow> jsval list \<Rightarrow> error + jsval list" where
  "for_each f [] = Inr []"
| "for_each f (x # xs) =
     (case f x of
        Inl e \<Rightarrow> Inl e
      | Inr y \<Rightarrow> (case for_each f xs of Inl e \<Rightarrow> Inl e | Inr ys \<Rightarrow> Inr (y # ys)))"

text \<open>
  The body of \<^verbatim>\<open>companyJobs.rows.forEach\<close> for one row. A row of the grouped
  \<^verbatim>\<open>SELECT\<close> is an object; its \<^verbatim>\<open>jobs\<close> must be an array for \<^verbatim>\<open>forEach\<close> to exist.
\<close>

definition strip_company :: "string \<Rightarrow> jsval \<Rightarrow> error + jsval" where
  "strip_company handle company =
     (case company of
        JObj ps \<Rightarrow>
          (let ps' = (if handle = [] then AList.delete ''logoUrl'' (AList.delete ''description'' ps) else ps)
           in case get_prop ps' ''jobs'' of
                JArr js \<Rightarrow>
                  (case for_each delete_company_handle js of
                     Inl e \<Rightarrow> Inl e
                   | Inr js' \<Rightarrow> Inr (JObj (AList.update ''jobs'' (JArr js') ps')))
              | _ \<Rightarrow> Inl TypeError)
      | _ \<Rightarrow> Inl TypeError)"

text \<open>
  The expression \<^verbatim>\<open>companyJobs.rows[0].jobs[0]\<close>: \<open>None\<close> where reading it throws.
\<close>

definition first_job :: "jsval list \<Rightarrow> jsval option" where
  "first_job rows =
     (case props_of (index rows 0) of
        None \<Rightarrow> None
      | Some company \<Rightarrow>
          (case props_of (get_prop company ''jobs'') of
             None \<Rightarrow> None
           | Some jobs \<Rightarrow> Some (get_prop jobs ''0'')))"

text \<open>The statement \<^verbatim>\<open>companyJobs.rows[0].jobs.pop()\<close>.\<close>

definition pop_first_jobs :: "jsval list \<Rightarrow> error + jsval list" where
  "pop_first_jobs rows =
     (case rows of
        JObj ps # rest \<Rightarrow>
          (case get_prop ps ''jobs'' of
             JArr js \<Rightarrow> Inr (JObj (AList.update ''jobs'' (JArr (butlast js)) ps) # rest)
           | _ \<Rightarrow> Inl TypeError)
      | _ \<Rightarrow> Inl TypeError)"

text \<open>
  \<^verbatim>\<open>Company.get\<close> lives in \<^verbatim>\<open>models/company.js\<close>, which is not among the sources; it is
  the parameter \<open>company_get\<close>: the company object, or the error it throws. The object
  it returns receives the property \<^verbatim>\<open>jobs\<close>.
\<close>

definition findAll ::
  "store \<Rightarrow> (string \<Rightarrow> error + jsval) \<Rightarrow> string \<Rightarrow> string \<Rightarrow> js_object \<Rightarrow> error + jsval list" where
  "findAll db company_get handle joinType filterValues =
     (let filtersInAffect = (length (object_keys filterValues) > 0);
          filterValues' = (if handle \<noteq> [] then AList.update ''handle'' (JStr handle) filterValues
                           else filterValues)
      in case sqlForFilter (JObj filterValues') Jobs of
           Inl e \<Rightarrow> Inl e
         | Inr filter' \<Rightarrow>
             (case db (SelectCompanyJobs joinType (whereClause filter')) (whereValues filter') of
                Inl e \<Rightarrow> Inl e
              | Inr rows \<Rightarrow>
                  if length rows = 0 then
                    (if filtersInAffect then
                       (if handle \<noteq> [] then
                          (case company_get handle of
                             Inl e \<Rightarrow> Inl e
                           | Inr (JObj ps) \<Rightarrow> Inr [JObj (AList.update ''jobs'' (JArr []) ps)]
                           | Inr _ \<Rightarrow> Inl TypeError)
                        else Inl (NotFoundError ''No jobs were found due to filter settings''))
                     else Inl (NotFoundError (''No company: '' @ handle)))
                  else
                    (case first_job rows of
                       None \<Rightarrow> Inl TypeError
                     | Some j \<Rightarrow>
                         if truthy j then for_each (strip_company handle) rows
                         else pop_first_jobs rows)))"

subsection \<open>\<^verbatim>\<open>Job.get\<close>\<close>


subsection \<open>\<^verbatim>\<open>Job.update\<close>\<close>

text \<open>
  The test \<^verbatim>\<open>result.rows === 0\<close> compares an array with a number and is never true, so
  no branch of the model stands for it.
\<close>

definition update :: "store \<Rightarrow> jsval \<Rightarrow> js_object \<Rightarrow> error + jsval" where
  "update db id' data =
     (case sqlForPartialUpdate data (JObj [(''companyHandle'', JStr ''company_handle'')]) of
        Inl e \<Rightarrow> Inl e
      | Inr sc \<Rightarrow>
          (let idVarIdx = ''$'' @ show_nat (length (setValues sc) + 1) in
           case db (UpdateJob (setCols sc) idVarIdx) (setValues sc @ [id']) of
             Inl e \<Rightarrow> Inl e
           | Inr rows \<Rightarrow>
               (case props_of (index rows 0) of
                  None \<Rightarrow> Inl TypeError
                | Some job \<Rightarrow>
                    Inr (JObj [(''companyHandle'', get_prop job ''company_handle''),
                               (''id'', get_prop job ''id''),
                               (''title'', get_prop job ''title''),
                               (''salary'', get_prop job ''salary''),
                               (''equity'', numeric_if_truthy (get_prop job ''equity''))]))))"

section \<open>Reading a statement text\<close>

text \<open>
  The positional parameters of a statement text, left to right: each \<^verbatim>\<open>$\<close> that is
  followed by decimal digits, with the number the digits spell.
\<close>

fun placeholders :: "string \<Rightarrow> nat list" where
  "placeholders [] = []"
| "placeholders (c # cs) =
     (if c = CHR ''$'' \<and> takeWhile is_digit cs \<noteq> []
      then nat_of_digits (takeWhile is_digit cs) # placeholders cs
      else placeholders cs)"

section \<open>The text of a stored decimal\<close>



section \<open>Properties\<close>

lemma props_of_JObj: "props_of (JObj ps) = Some ps"
  by (simp add: props_of_def entries_def)

text \<open>
  Where a conversion throws, \<open>to_number\<close> is \<open>NaN\<close>, and \<open>NaN\<close> compares with nothing:
  two values that compare have conversions that do not throw.
\<close>

lemma conversion_throws_NaN: "conversion_throws v \<Longrightarrow> to_number v = NaN"
  by (cases v) auto

lemma num_le_NaN: "\<not> num_le NaN b" "\<not> num_le a NaN"
  by (simp add: num_le_def, cases "to_double a") (simp_all add: num_le_def)

lemma num_le_converts:
  assumes "num_le (to_number a) (to_number b)"
  shows "\<not> conversion_throws a \<and> \<not> conversion_throws b"
  using assms conversion_throws_NaN [of a] conversion_throws_NaN [of b] num_le_NaN by metis

lemma min_max_check_error:
  "min_max_check d = Some e \<Longrightarrow> e = TypeError \<or> e = BadRequestError (min_max_message d)"
  by (auto simp: min_max_check_def split: if_splits)

text \<open>
  C7. With an empty input mapping the partial-update builder fails with the
  ``No data'' validation error, whatever the column-mapping argument is (given or not),
  and so returns no clause and no values.
\<close>

theorem sqlForPartialUpdate_no_data:
  "sqlForPartialUpdate [] jsToSql = Inl (BadRequestError ''No data'')"
  by (simp add: sqlForPartialUpdate_def object_keys_def)

text \<open>
  C6. An input mapping that is empty, \<^verbatim>\<open>null\<close> or \<^verbatim>\<open>undefined\<close> makes the filter builder
  return the empty where-clause (no leading \<^verbatim>\<open>WHERE\<close>) and the empty parameter list.
  The result is a return value, not one of the errors.
\<close>

theorem sqlForFilter_no_filtering:
  "sqlForFilter (JObj []) t = Inr \<lparr> whereClause = [], whereValues = [] \<rparr>
   \<and> sqlForFilter JNull t = Inr \<lparr> whereClause = [], whereValues = [] \<rparr>
   \<and> sqlForFilter JUndefined t = Inr \<lparr> whereClause = [], whereValues = [] \<rparr>"
  by (simp add: sqlForFilter_def entries_def object_keys_def)

text \<open>
  C8. On the companies mapping \<^verbatim>\<open>{nameLike: "net ", minEmployees: "5", maxEmployees: "50"}\<close>
  the filter builder returns the clause
  \<^verbatim>\<open>WHERE name ILIKE $1 AND num_employees >= $2 AND num_employees <= $3\<close> and the values
  \<^verbatim>\<open>["%net%", 5, 50]\<close>: the string value is trimmed and wrapped in \<^verbatim>\<open>%\<close>, the two
  employee bounds are numbers.
\<close>

theorem sqlForFilter_companies_example:
  "sqlForFilter (JObj [(''nameLike'', JStr ''net ''), (''minEmployees'', JStr ''5''),
                       (''maxEmployees'', JStr ''50'')]) Companies
   = Inr \<lparr> whereClause = ''WHERE name ILIKE $1 AND num_employees >= $2 AND num_employees <= $3'',
           whereValues = [JStr ''%net%'', JNum (Fin 5), JNum (Fin 50)] \<rparr>"
  by code_simp

text \<open>
  What the builder emits for \<^verbatim>\<open>hasEquity\<close>: the fragment depends on the truthiness of
  the value alone, and \<^verbatim>\<open>valuesOut\<close> is returned as it came in.
\<close>

lemma filter_col_hasEquity:
  "filter_col Jobs d valuesOut ''hasEquity''
   = Inr (if truthy (get_prop d ''hasEquity'') then ''equity > 0'' else ''equity >= 0'', valuesOut)"
  by (simp add: filter_col_def fields_def)

text \<open>
  C1. A truthy \<^verbatim>\<open>hasEquity\<close> gives \<^verbatim>\<open>equity > 0\<close>, a falsy one \<^verbatim>\<open>equity >= 0\<close>, and the
  query-string value \<^verbatim>\<open>"false"\<close> is meant to count as falsy. The builder tests the raw
  value: \<^verbatim>\<open>"false"\<close> is a non-empty string, hence truthy, and the clause it returns for
  \<^verbatim>\<open>{hasEquity: "false"}\<close> is \<^verbatim>\<open>WHERE equity > 0\<close>, with no parameter.
\<close>

theorem sqlForFilter_hasEquity_false_string:
  "sqlForFilter (JObj [(''hasEquity'', JStr ''false'')]) Jobs
   = Inr \<lparr> whereClause = ''WHERE equity > 0'', whereValues = [] \<rparr>"
  by code_simp

text \<open>
  An error of the callback is the \<^verbatim>\<open>TypeError\<close> of \<^verbatim>\<open>.trim()\<close> or the validation error
  for the key at hand; a key that the table does not list stops \<^verbatim>\<open>keys.map\<close>, at that
  key or before it.
\<close>

lemma filter_col_error:
  "filter_col t d vs k = Inl e \<Longrightarrow> e = TypeError \<or> e = not_possible t k"
  by (auto simp: filter_col_def split: option.splits if_splits jsval.splits)

lemma filter_cols_unrecognized_fails:
  assumes "k \<in> set ks" and "map_of (fields t) k = None"
  shows "\<exists>e. filter_cols t d ks vs = Inl e \<and> (e = TypeError \<or> (\<exists>k'. e = not_possible t k'))"
  using assms(1)
proof (induction ks arbitrary: vs)
  case Nil
  then show ?case by simp
next
  case (Cons k' ks)
  show ?case
  proof (cases "filter_col t d vs k'")
    case (Inl e)
    then show ?thesis using filter_col_error [OF Inl] by auto
  next
    case (Inr p)
    then have "k' \<noteq> k" using assms(2) by (auto simp: filter_col_def)
    then have "k \<in> set ks" using Cons.prems by simp
    then obtain e where "filter_cols t d ks (snd p) = Inl e"
      and "e = TypeError \<or> (\<exists>k'. e = not_possible t k')"
      using Cons.IH by blast
    then show ?thesis using Inr by (cases p) auto
  qed
qed

text \<open>
  A listing over all companies with a filter in effect that finds no row fails with the
  ``no jobs under these filters'' error.
\<close>

lemma findAll_global_no_match:
  assumes "filterValues \<noteq> []"
    and "sqlForFilter (JObj filterValues) Jobs = Inr w"
    and "db (SelectCompanyJobs joinType (whereClause w)) (whereValues w) = Inr []"
  shows "findAll db company_get [] joinType filterValues
         = Inl (NotFoundError ''No jobs were found due to filter settings'')"
  using assms by (simp add: findAll_def object_keys_def)

text \<open>
  A lookup for one company never gets as far as the query: with a handle given,
  \<^verbatim>\<open>findAll\<close> fails, and not with a ``not found'' error.
\<close>

lemma findAll_with_handle_fails:
  assumes "handle \<noteq> []"
  shows "\<exists>e. findAll db company_get handle joinType filterValues = Inl e
             \<and> (\<forall>msg. e \<noteq> NotFoundError msg)"
proof -
  let ?d = "AList.update ''handle'' (JStr handle) filterValues"
  have k: "''handle'' \<in> set (object_keys ?d)"
    by (simp add: object_keys_def dom_update)
  then have ne: "object_keys ?d \<noteq> []" by auto
  have "map_of (fields Jobs) ''handle'' = None" by (simp add: fields_def)
  then obtain e where e: "filter_cols Jobs ?d (object_keys ?d) [] = Inl e"
    and "e = TypeError \<or> (\<exists>k'. e = not_possible Jobs k')"
    using filter_cols_unrecognized_fails [OF k] by blast
  then have "\<forall>msg. e \<noteq> NotFoundError msg" by (auto simp: not_possible_def)
  moreover have "\<exists>e'. sqlForFilter (JObj ?d) Jobs = Inl e' \<and> (\<forall>msg. e' \<noteq> NotFoundError msg)"
  proof (cases "min_max_check ?d")
    case None
    then show ?thesis
      using e ne calculation by (auto simp: sqlForFilter_def entries_def Let_def)
  next
    case (Some e')
    then have "\<forall>msg. e' \<noteq> NotFoundError msg"
      using min_max_check_error [OF Some] by auto
    then show ?thesis
      using Some ne by (auto simp: sqlForFilter_def entries_def Let_def)
  qed
  ultimately show ?thesis
    using assms by (auto simp: findAll_def Let_def)
qed

text \<open>
  C2. A lookup for one company is to answer with the company and an empty job list when
  the company exists and its jobs are filtered out, and with ``not found'' when the
  company does not exist. \<^verbatim>\<open>findAll\<close> adds the key \<^verbatim>\<open>handle\<close> to the filter before it
  calls the builder, and the builder's table for jobs has no entry for \<^verbatim>\<open>handle\<close>: for
  company \<^verbatim>\<open>c1\<close> and the filter \<^verbatim>\<open>{title: "x"}\<close> the call fails with a validation error,
  whatever the database and \<^verbatim>\<open>Company.get\<close> hold.
\<close>

theorem findAll_company_lookup_rejected:
  "findAll db company_get ''c1'' ''LEFT '' [(''title'', JStr ''x'')]
   = Inl (BadRequestError ''Filtering 'jobs' by 'handle' is not possible.'')"
proof -
  have "sqlForFilter (JObj [(''title'', JStr ''x''), (''handle'', JStr ''c1'')]) Jobs
        = Inl (BadRequestError ''Filtering 'jobs' by 'handle' is not possible.'')"
    by code_simp
  then show ?thesis
    by (simp add: findAll_def object_keys_def)
qed

text \<open>
  C3. When the mapping holds both \<^verbatim>\<open>minEmployees\<close> and \<^verbatim>\<open>maxEmployees\<close> and the number
  read from \<^verbatim>\<open>maxEmployees\<close> is less than or equal to the number read from
  \<^verbatim>\<open>minEmployees\<close>, the builder fails with the validation error of the cross-check and
  returns no clause and no parameter. \<open>num_le\<close> holds for smaller and for equal.
\<close>

theorem sqlForFilter_min_max:
  assumes "map_of d ''minEmployees'' = Some mn"
    and "map_of d ''maxEmployees'' = Some mx"
    and "num_le (to_number mx) (to_number mn)"
  shows "sqlForFilter (JObj d) t = Inl (BadRequestError (min_max_message d))"
proof -
  have "d \<noteq> []" using assms(1) by auto
  moreover have "min_max_check d = Some (BadRequestError (min_max_message d))"
    using assms num_le_converts [OF assms(3)]
    by (simp add: min_max_check_def has_own_def get_prop_def)
  ultimately show ?thesis
    by (simp add: sqlForFilter_def entries_def object_keys_def)
qed

theorem sqlForFilter_min_max_witness:
  "num_le (to_number (JStr ''10'')) (to_number (JStr ''20''))
   \<and> sqlForFilter (JObj [(''nameLike'', JStr ''txt in name''), (''minEmployees'', JStr ''20''),
                         (''maxEmployees'', JStr ''10'')]) Companies
     = Inl (BadRequestError ''Filter is incorrect: 'minEmployees', 20, is NOT less than 'maxEmployees', 10.'')
   \<and> num_le (to_number (JStr ''20'')) (to_number (JStr ''20''))
   \<and> sqlForFilter (JObj [(''nameLike'', JStr ''txt in name''), (''minEmployees'', JStr ''20''),
                         (''maxEmployees'', JStr ''20'')]) Companies
     = Inl (BadRequestError ''Filter is incorrect: 'minEmployees', 20, is NOT less than 'maxEmployees', 20.'')"
proof -
  have lt: "num_le (to_number (JStr ''10'')) (to_number (JStr ''20''))" by code_simp
  have eq: "num_le (to_number (JStr ''20'')) (to_number (JStr ''20''))" by code_simp
  have m1: "min_max_message [(''nameLike'', JStr ''txt in name''), (''minEmployees'', JStr ''20''),
                             (''maxEmployees'', JStr ''10'')]
            = ''Filter is incorrect: 'minEmployees', 20, is NOT less than 'maxEmployees', 10.''"
    by code_simp
  have m2: "min_max_message [(''nameLike'', JStr ''txt in name''), (''minEmployees'', JStr ''20''),
                             (''maxEmployees'', JStr ''20'')]
            = ''Filter is incorrect: 'minEmployees', 20, is NOT less than 'maxEmployees', 20.''"
    by code_simp
  show ?thesis
    using lt eq
      sqlForFilter_min_max [of "[(''nameLike'', JStr ''txt in name''), (''minEmployees'', JStr ''20''),
                                 (''maxEmployees'', JStr ''10'')]" "JStr ''20''" "JStr ''10''" Companies]
      sqlForFilter_min_max [of "[(''nameLike'', JStr ''txt in name''), (''minEmployees'', JStr ''20''),
                                 (''maxEmployees'', JStr ''20'')]" "JStr ''20''" "JStr ''20''" Companies]
    by (simp add: m1 m2)
qed

subsection \<open>Numerals and positional parameters\<close>

lemma digit_cases: "d < 10 \<Longrightarrow> d = 0 \<or> d = 1 \<or> d = 2 \<or> d = 3 \<or> d = 4 \<or> d = 5 \<or> d = 6 \<or> d = 7 \<or> d = 8 \<or> d = (9::nat)"
  by arith

lemma digit_char_props:
  assumes "d < 10"
  shows "is_digit (digit_char d)" and "digit_val (digit_char d) = d" and "digit_char d \<noteq> CHR ''$''"
  using digit_cases [OF assms]
  by (auto simp: digit_char_def is_digit_def digit_val_def)

lemma nat_of_digits_snoc: "nat_of_digits (ds @ [c]) = 10 * nat_of_digits ds + digit_val c"
  by (simp add: nat_of_digits_def)

lemma show_nat_digits: "list_all is_digit (show_nat n)"
proof (induction n rule: show_nat.induct)
  case (1 n)
  show ?case
  proof (cases "n < 10")
    case True
    then show ?thesis by (subst show_nat.simps) (simp add: digit_char_props)
  next
    case False
    then show ?thesis using 1 by (subst show_nat.simps) (simp add: digit_char_props)
  qed
qed

lemma show_nat_nonempty: "show_nat n \<noteq> []"
  by (subst show_nat.simps) simp

lemma nat_of_digits_show_nat: "nat_of_digits (show_nat n) = n"
proof (induction n rule: show_nat.induct)
  case (1 n)
  show ?case
  proof (cases "n < 10")
    case True
    then show ?thesis
      by (subst show_nat.simps) (simp add: nat_of_digits_def digit_char_props)
  next
    case False
    then show ?thesis using 1
      by (subst show_nat.simps) (simp add: nat_of_digits_snoc digit_char_props)
  qed
qed

lemma takeWhile_digits: "list_all is_digit ds \<Longrightarrow> takeWhile is_digit ds = ds"
  by (induction ds) auto


lemma placeholders_digits: "list_all is_digit ds \<Longrightarrow> placeholders ds = []"
  by (induction ds) (auto simp: is_digit_def)

lemma placeholders_append:
  assumes "b = [] \<or> \<not> is_digit (hd b)"
  shows "placeholders (a @ b) = placeholders a @ placeholders b"
proof (induction a)
  case Nil
  then show ?case by simp
next
  case (Cons c cs)
  have tw: "takeWhile is_digit (cs @ b) = takeWhile is_digit cs"
  proof (cases "\<forall>x\<in>set cs. is_digit x")
    case True
    have "takeWhile is_digit b = []" using assms by (cases b) auto
    then show ?thesis using True by (simp add: takeWhile_digits list_all_iff)
  next
    case False
    then show ?thesis by auto
  qed
  show ?case using Cons by (simp add: tw)
qed

lemma placeholders_param: "placeholders (CHR ''$'' # show_nat n) = [n]"
proof -
  show ?thesis
    by (simp add: takeWhile_digits show_nat_digits show_nat_nonempty placeholders_digits
          nat_of_digits_show_nat)
qed

lemma join_Cons: "join sep (c # cs) = (if cs = [] then c else c @ sep @ join sep cs)"
  by (cases cs) simp_all

lemma placeholders_join_and:
  "placeholders (join '' AND '' (c # cs)) = placeholders c @ placeholders (join '' AND '' cs)"
proof (cases cs)
  case Nil
  then show ?thesis by simp
next
  case (Cons x xs)
  have "placeholders (c @ '' AND '' @ join '' AND '' cs)
        = placeholders c @ placeholders ('' AND '' @ join '' AND '' cs)"
    by (rule placeholders_append) (simp add: is_digit_def)
  then show ?thesis using Cons by (simp add: is_digit_def)
qed

lemma filter_col_placeholders:
  assumes "filter_col t d vs k = Inr (c, vs')"
  shows "(k = ''hasEquity'' \<and> vs' = vs \<and> placeholders c = [])
         \<or> (k \<noteq> ''hasEquity'' \<and> length vs' = Suc (length vs) \<and> placeholders c = [Suc (length vs)])"
  using assms
  by (cases t)
     (auto simp: filter_col_def fields_def is_digit_def takeWhile_digits show_nat_digits
        show_nat_nonempty placeholders_digits nat_of_digits_show_nat
        split: if_splits jsval.splits)

lemma filter_cols_placeholders:
  "filter_cols t d ks vs = Inr (cs, vs') \<Longrightarrow>
     placeholders (join '' AND '' cs) = [Suc (length vs) ..< Suc (length vs')]
     \<and> length vs' = length vs + length (filter (\<lambda>k. k \<noteq> ''hasEquity'') ks)"
proof (induction ks arbitrary: vs cs vs')
  case Nil
  then show ?case by simp
next
  case (Cons k ks)
  from Cons.prems obtain c v1 cs' where
    col: "filter_col t d vs k = Inr (c, v1)" and
    rest: "filter_cols t d ks v1 = Inr (cs', vs')" and
    cs: "cs = c # cs'"
    by (auto split: sum.splits prod.splits)
  from Cons.IH [OF rest] have
    ih1: "placeholders (join '' AND '' cs') = [Suc (length v1) ..< Suc (length vs')]" and
    ih2: "length vs' = length v1 + length (filter (\<lambda>k. k \<noteq> ''hasEquity'') ks)"
    by simp_all
  from filter_col_placeholders [OF col] show ?case
  proof
    assume "k = ''hasEquity'' \<and> v1 = vs \<and> placeholders c = []"
    then show ?thesis using ih1 ih2 cs by (simp add: placeholders_join_and del: join.simps)
  next
    assume a: "k \<noteq> ''hasEquity'' \<and> length v1 = Suc (length vs) \<and> placeholders c = [Suc (length vs)]"
    then have "Suc (length vs) < Suc (length vs')" using ih2 by simp
    then have "[Suc (length vs) ..< Suc (length vs')] = Suc (length vs) # [Suc (Suc (length vs)) ..< Suc (length vs')]"
      by (rule upt_conv_Cons)
    then show ?thesis using a ih1 ih2 cs by (simp add: placeholders_join_and del: join.simps upt_Suc)
  qed
qed

text \<open>
  C10. Whenever the filter builder returns a clause, the positional parameters in it are
  \<^verbatim>\<open>$1\<close> to \<^verbatim>\<open>$N\<close> from left to right, \<open>N\<close> being the length of the returned values.
  Every key other than \<^verbatim>\<open>hasEquity\<close> gives one parameter and one value and
  \<^verbatim>\<open>hasEquity\<close> gives neither, so the numbering has no gap wherever \<^verbatim>\<open>hasEquity\<close>
  stands among the keys.
\<close>

theorem sqlForFilter_placeholders:
  assumes "sqlForFilter dataForFilter t = Inr w"
  shows "placeholders (whereClause w) = [1 ..< length (whereValues w) + 1]
         \<and> length (whereValues w)
             = length (filter (\<lambda>k. k \<noteq> ''hasEquity'') (object_keys (entries dataForFilter)))"
proof (cases "truthy dataForFilter \<and> length (object_keys (entries dataForFilter)) > 0")
  case False
  then have "w = \<lparr> whereClause = [], whereValues = [] \<rparr>"
    using assms by (auto simp: sqlForFilter_def Let_def)
  moreover have "\<not> truthy dataForFilter \<Longrightarrow> entries dataForFilter = []"
    by (cases dataForFilter) (auto simp: entries_def)
  ultimately show ?thesis using False by (auto simp: object_keys_def)
next
  case True
  then obtain cols valuesOut where
    fc: "filter_cols t (entries dataForFilter) (object_keys (entries dataForFilter)) [] = Inr (cols, valuesOut)"
    and w: "w = \<lparr> whereClause = ''WHERE '' @ join '' AND '' cols, whereValues = valuesOut \<rparr>"
    using assms
    by (auto simp: sqlForFilter_def Let_def split: if_splits sum.splits prod.splits option.splits)
  have "placeholders (''WHERE '' @ join '' AND '' cols) = placeholders (join '' AND '' cols)"
    by (simp add: is_digit_def)
  then show ?thesis using filter_cols_placeholders [OF fc] w by simp
qed

theorem sqlForFilter_placeholders_witness:
  "sqlForFilter (JObj [(''minSalary'', JStr ''100000''), (''hasEquity'', JStr ''true''),
                       (''title'', JStr ''job title'')]) Jobs
   = Inr \<lparr> whereClause = ''WHERE salary >= $1 AND equity > 0 AND title ILIKE $2'',
           whereValues = [JNum (Fin 100000), JStr ''%job title%''] \<rparr>
   \<and> placeholders ''WHERE salary >= $1 AND equity > 0 AND title ILIKE $2'' = [1, 2]"
proof -
  have e: "sqlForFilter (JObj [(''minSalary'', JStr ''100000''), (''hasEquity'', JStr ''true''),
                               (''title'', JStr ''job title'')]) Jobs
           = Inr \<lparr> whereClause = ''WHERE salary >= $1 AND equity > 0 AND title ILIKE $2'',
                   whereValues = [JNum (Fin 100000), JStr ''%job title%''] \<rparr>"
    by code_simp
  have "[1 ..< length [JNum (Fin 100000), JStr ''%job title%''] + 1] = [1, 2::nat]"
    by (simp add: upt_rec)
  then show ?thesis
    using e sqlForFilter_placeholders [OF e] by simp
qed

subsection \<open>Unrecognized filter fields\<close>

lemma filter_col_recognized:
  assumes "map_of (fields t) k = Some f"
    and "type f = Some ''string'' \<longrightarrow> (\<exists>s. get_prop d k = JStr s)"
    and "type f = Some ''integer'' \<longrightarrow> \<not> conversion_throws (get_prop d k)"
  shows "\<exists>c vs'. filter_col t d vs k = Inr (c, vs')"
  using assms
  by (cases t) (auto simp: filter_col_def fields_def split: if_splits)

lemma filter_cols_first_unrecognized:
  assumes "List.find (\<lambda>k. map_of (fields t) k = None) ks = Some k"
    and "\<forall>k'\<in>set (takeWhile (\<lambda>k. map_of (fields t) k \<noteq> None) ks).
           \<forall>f. map_of (fields t) k' = Some f \<longrightarrow>
             (type f = Some ''string'' \<longrightarrow> (\<exists>s. get_prop d k' = JStr s))
             \<and> (type f = Some ''integer'' \<longrightarrow> \<not> conversion_throws (get_prop d k'))"
  shows "filter_cols t d ks vs = Inl (not_possible t k)"
  using assms
proof (induction ks arbitrary: vs)
  case Nil
  then show ?case by simp
next
  case (Cons k' ks)
  show ?case
  proof (cases "map_of (fields t) k'")
    case None
    then have "k = k'" using Cons.prems(1) by simp
    then show ?thesis using None by (simp add: filter_col_def)
  next
    case (Some f)
    then have tw: "takeWhile (\<lambda>k. map_of (fields t) k \<noteq> None) (k' # ks)
                   = k' # takeWhile (\<lambda>k. map_of (fields t) k \<noteq> None) ks"
      by simp
    have "(type f = Some ''string'' \<longrightarrow> (\<exists>s. get_prop d k' = JStr s))
          \<and> (type f = Some ''integer'' \<longrightarrow> \<not> conversion_throws (get_prop d k'))"
      using Cons.prems(2) Some unfolding tw by simp
    then obtain c vs' where col: "filter_col t d vs k' = Inr (c, vs')"
      using filter_col_recognized [OF Some, of d vs] by auto
    have "List.find (\<lambda>k. map_of (fields t) k = None) ks = Some k"
      using Cons.prems(1) Some by simp
    moreover have "\<forall>k'\<in>set (takeWhile (\<lambda>k. map_of (fields t) k \<noteq> None) ks).
           \<forall>f. map_of (fields t) k' = Some f \<longrightarrow>
             (type f = Some ''string'' \<longrightarrow> (\<exists>s. get_prop d k' = JStr s))
             \<and> (type f = Some ''integer'' \<longrightarrow> \<not> conversion_throws (get_prop d k'))"
      using Cons.prems(2) unfolding tw by simp
    ultimately have "filter_cols t d ks vs' = Inl (not_possible t k)"
      by (rule Cons.IH)
    then show ?thesis using col by simp
  qed
qed

text \<open>
  Whatever else the mapping holds, a key outside the table makes the builder fail.
\<close>

lemma sqlForFilter_unrecognized_fails:
  assumes "k \<in> set (object_keys d)" and "map_of (fields t) k = None"
  shows "\<exists>e. sqlForFilter (JObj d) t = Inl e"
proof -
  have "object_keys d \<noteq> []" using assms(1) by auto
  moreover obtain e where "filter_cols t d (object_keys d) [] = Inl e"
    using filter_cols_unrecognized_fails [OF assms] by blast
  ultimately show ?thesis
    by (cases "min_max_check d") (auto simp: sqlForFilter_def entries_def Let_def)
qed

text \<open>
  C5. A mapping with a field name outside the recognized set of the entity makes the
  builder fail. The failure is the validation error that names the first such field and
  the entity, provided the cross-check of \<^verbatim>\<open>minEmployees\<close> against \<^verbatim>\<open>maxEmployees\<close>
  neither fires nor throws and the recognized fields in front of that field are got
  through: a string-typed one (\<^verbatim>\<open>nameLike\<close>, \<^verbatim>\<open>title\<close>) holds a string, and the
  conversion of an integer-typed one to a number does not throw. The counterexample
  shows the errors that come first otherwise: the message of the cross-check, which
  names neither the field nor the entity, the \<^verbatim>\<open>TypeError\<close> of \<^verbatim>\<open>.trim()\<close> on an array,
  and the \<^verbatim>\<open>TypeError\<close> of the unary \<^verbatim>\<open>+\<close> on an object whose \<^verbatim>\<open>toString\<close> is not a
  function, in a field in front and in the cross-check.
\<close>

theorem sqlForFilter_unrecognized_field:
  assumes "List.find (\<lambda>k. map_of (fields t) k = None) (object_keys d) = Some k"
    and "min_max_check d = None"
    and "\<forall>k'\<in>set (takeWhile (\<lambda>k. map_of (fields t) k \<noteq> None) (object_keys d)).
           \<forall>f. map_of (fields t) k' = Some f \<longrightarrow>
             (type f = Some ''string'' \<longrightarrow> (\<exists>s. get_prop d k' = JStr s))
             \<and> (type f = Some ''integer'' \<longrightarrow> \<not> conversion_throws (get_prop d k'))"
  shows "sqlForFilter (JObj d) t
         = Inl (BadRequestError (''Filtering '' @ [CHR 0x27] @ table_name t @ [CHR 0x27] @ '' by ''
                                 @ [CHR 0x27] @ k @ [CHR 0x27] @ '' is not possible.''))"
proof -
  have "object_keys d \<noteq> []" using assms(1) by auto
  moreover have "filter_cols t d (object_keys d) [] = Inl (not_possible t k)"
    using assms(1,3) by (rule filter_cols_first_unrecognized)
  ultimately show ?thesis
    using assms(2) by (simp add: sqlForFilter_def entries_def not_possible_def)
qed

theorem sqlForFilter_unrecognized_field_witness:
  "sqlForFilter (JObj [(''nameLike'', JStr ''net''), (''minEmployees'', JStr ''20''),
                       (''invalidField'', JStr ''txt in name''), (''maxEmployees'', JStr ''200'')])
                Companies
   = Inl (BadRequestError ''Filtering 'companies' by 'invalidField' is not possible.'')"
proof -
  let ?d = "[(''nameLike'', JStr ''net''), (''minEmployees'', JStr ''20''),
             (''invalidField'', JStr ''txt in name''), (''maxEmployees'', JStr ''200'')]"
  have f: "List.find (\<lambda>k. map_of (fields Companies) k = None) (object_keys ?d) = Some ''invalidField''"
    by (simp add: object_keys_def fields_def)
  have m: "min_max_check ?d = None"
    by code_simp
  have s: "\<forall>k'\<in>set (takeWhile (\<lambda>k. map_of (fields Companies) k \<noteq> None) (object_keys ?d)).
             \<forall>f. map_of (fields Companies) k' = Some f \<longrightarrow>
               (type f = Some ''string'' \<longrightarrow> (\<exists>s. get_prop ?d k' = JStr s))
               \<and> (type f = Some ''integer'' \<longrightarrow> \<not> conversion_throws (get_prop ?d k'))"
    by (simp add: object_keys_def fields_def get_prop_def)
  show ?thesis
    using sqlForFilter_unrecognized_field [OF f m s] by (simp add: table_name_def)
qed

theorem sqlForFilter_unrecognized_field_counterexample:
  "sqlForFilter (JObj [(''invalidField'', JStr ''x''), (''minEmployees'', JStr ''20''),
                       (''maxEmployees'', JStr ''10'')]) Companies
   = Inl (BadRequestError ''Filter is incorrect: 'minEmployees', 20, is NOT less than 'maxEmployees', 10.'')
   \<and> sqlForFilter (JObj [(''nameLike'', JArr [JStr ''a'', JStr ''b'']), (''invalidField'', JStr ''x'')]) Companies
     = Inl TypeError
   \<and> sqlForFilter (JObj [(''minEmployees'', JObj [(''toString'', JStr ''x'')]),
                         (''invalidField'', JStr ''x'')]) Companies
     = Inl TypeError
   \<and> sqlForFilter (JObj [(''invalidField'', JStr ''x''),
                         (''minEmployees'', JObj [(''toString'', JStr ''x'')]),
                         (''maxEmployees'', JStr ''5'')]) Companies
     = Inl TypeError"
  by code_simp

subsection \<open>The clause of a partial update\<close>

lemma collect_Inr: "collect (map (\<lambda>x. Inr (f x)) xs) = Inr (map f xs)"
  by (induction xs) simp_all

text \<open>
  C4. For a non-empty update mapping and a column mapping that is an object with string
  values, the builder returns one assignment \<^verbatim>\<open>"<column>"=$<n>\<close> per key of the update
  mapping, joined by \<^verbatim>\<open>", "\<close>, in the order of the keys, with \<open>n\<close> running from 1 without
  gap, and the values of the update mapping in the same order. The column is the name
  the column mapping gives for the key when that name is not empty, and the key itself
  otherwise. A key for which the column mapping has no entry must not be the name of a
  member of \<^verbatim>\<open>Object.prototype\<close>. The counterexample: an empty name in the column
  mapping is passed over for the key, a column mapping left out makes the builder
  throw, and for the key \<^verbatim>\<open>toString\<close> the read of the column mapping finds the
  inherited function, whose text becomes the column.
\<close>

theorem sqlForPartialUpdate_clause:
  assumes "dataToUpdate \<noteq> []"
    and "\<forall>k\<in>set (object_keys dataToUpdate). map_of cm k = None \<longrightarrow> inherited_text k = None"
  shows "sqlForPartialUpdate dataToUpdate (JObj (map (\<lambda>(k, c). (k, JStr c)) cm))
         = Inr \<lparr> setCols =
                   join '', ''
                     (map (\<lambda>i. ''\"''
                               @ (case map_of cm (fst (dataToUpdate ! i)) of
                                    None \<Rightarrow> fst (dataToUpdate ! i)
                                  | Some c \<Rightarrow> if c = [] then fst (dataToUpdate ! i) else c)
                               @ ''\"=$'' @ show_nat (i + 1))
                          [0..<length dataToUpdate]),
                 setValues = map snd dataToUpdate \<rparr>"
proof -
  let ?m = "map (\<lambda>(k, c). (k, JStr c)) cm"
  let ?col = "\<lambda>i. ''\"''
                 @ (case map_of cm (fst (dataToUpdate ! i)) of
                      None \<Rightarrow> fst (dataToUpdate ! i)
                    | Some c \<Rightarrow> if c = [] then fst (dataToUpdate ! i) else c)
                 @ ''\"=$'' @ show_nat (i + 1)"
  have own: "map_of ?m k = map_option JStr (map_of cm k)" for k
    by (simp add: map_of_map)
  have col: "set_col ?m (fst (dataToUpdate ! i)) i = Inr (?col i)" if "i < length dataToUpdate" for i
  proof -
    have "fst (dataToUpdate ! i) \<in> set (object_keys dataToUpdate)"
      using that by (simp add: object_keys_def)
    then have "map_of cm (fst (dataToUpdate ! i)) = None \<longrightarrow> inherited_text (fst (dataToUpdate ! i)) = None"
      using assms(2) by blast
    then show ?thesis
      by (cases "map_of cm (fst (dataToUpdate ! i))") (simp_all add: set_col_def own)
  qed
  have "map (\<lambda>(idx, colName). set_col ?m colName idx) (enumerate 0 (map fst dataToUpdate))
        = map (\<lambda>i. Inr (?col i)) [0..<length dataToUpdate]"
    by (rule nth_equalityI) (auto simp: nth_enumerate_eq col split: option.splits)
  then have "collect (map (\<lambda>(idx, colName). set_col ?m colName idx) (enumerate 0 (map fst dataToUpdate)))
             = Inr (map ?col [0..<length dataToUpdate])"
    by (simp only: collect_Inr)
  then show ?thesis
    using assms(1)
    by (simp add: sqlForPartialUpdate_def object_keys_def object_values_def props_of_JObj)
qed

theorem sqlForPartialUpdate_clause_witness:
  "[(''firstName'', JStr ''val_first_name''), (''lastName'', JStr ''val_last_name''),
    (''email'', JStr ''val_email'')] \<noteq> []
   \<and> sqlForPartialUpdate
       [(''firstName'', JStr ''val_first_name''), (''lastName'', JStr ''val_last_name''),
        (''email'', JStr ''val_email'')]
       (JObj [(''firstName'', JStr ''first_name''), (''lastName'', JStr ''last_name'')])
     = Inr \<lparr> setCols = ''\"first_name\"=$1, \"last_name\"=$2, \"email\"=$3'',
             setValues = [JStr ''val_first_name'', JStr ''val_last_name'', JStr ''val_email''] \<rparr>"
proof -
  let ?d = "[(''firstName'', JStr ''val_first_name''), (''lastName'', JStr ''val_last_name''),
             (''email'', JStr ''val_email'')]"
  let ?cm = "[(''firstName'', ''first_name''), (''lastName'', ''last_name'')]"
  have ne: "?d \<noteq> []" by simp
  have inh: "\<forall>k\<in>set (object_keys ?d). map_of ?cm k = None \<longrightarrow> inherited_text k = None"
    by (simp add: object_keys_def inherited_text_def)
  have r: "join '', ''
             (map (\<lambda>i. ''\"''
                       @ (case map_of ?cm (fst (?d ! i)) of
                            None \<Rightarrow> fst (?d ! i)
                          | Some c \<Rightarrow> if c = [] then fst (?d ! i) else c)
                       @ ''\"=$'' @ show_nat (i + 1))
                  [0..<length ?d])
           = ''\"first_name\"=$1, \"last_name\"=$2, \"email\"=$3''"
    by code_simp
  have "sqlForPartialUpdate ?d (JObj (map (\<lambda>(k, c). (k, JStr c)) ?cm))
        = Inr \<lparr> setCols = ''\"first_name\"=$1, \"last_name\"=$2, \"email\"=$3'',
                setValues = map snd ?d \<rparr>"
    using sqlForPartialUpdate_clause [OF ne inh] by (simp only: r)
  then show ?thesis by simp
qed

theorem sqlForPartialUpdate_clause_counterexample:
  "sqlForPartialUpdate [(''firstName'', JStr ''Aliya'')] (JObj [(''firstName'', JStr [])])
   = Inr \<lparr> setCols = ''\"firstName\"=$1'', setValues = [JStr ''Aliya''] \<rparr>
   \<and> sqlForPartialUpdate [(''firstName'', JStr ''Aliya'')] JUndefined = Inl TypeError
   \<and> sqlForPartialUpdate [(''toString'', JStr ''x'')] (JObj [])
     = Inr \<lparr> setCols = ''\"function toString() { [native code] }\"=$1'', setValues = [JStr ''x''] \<rparr>"
  by code_simp

subsection \<open>Equity on read\<close>










end
